theory Spec2Isabelle
  imports Complex_Main
begin

section \<open>HPF pansharpening (python/functions.py, python/pansharpen.py)\<close>

text \<open>
  The embedding follows \<^verbatim>\<open>functions.py\<close> function by function. Pixel values are
  \<^verbatim>\<open>float32\<close> in the source. Here a pixel is either not-a-number or a finite value,
  and finite values are exact rationals: the arithmetic is the idealised one, without
  rounding, overflow or infinities. Not-a-number behaves as in IEEE 754: it is absorbing
  for \<open>+\<close>, \<open>-\<close> and \<open>*\<close>, and it compares unequal to everything, itself included.
\<close>

subsection \<open>Pixel values\<close>

datatype cell = NaN | Val rat

fun cadd :: "cell \<Rightarrow> cell \<Rightarrow> cell" where
  "cadd (Val a) (Val b) = Val (a + b)"
| "cadd _ _ = NaN"

fun csub :: "cell \<Rightarrow> cell \<Rightarrow> cell" where
  "csub (Val a) (Val b) = Val (a - b)"
| "csub _ _ = NaN"

text \<open>A kernel weight (always finite) times a pixel.\<close>

fun cscale :: "rat \<Rightarrow> cell \<Rightarrow> cell" where
  "cscale w (Val a) = Val (w * a)"
| "cscale w NaN = NaN"

text \<open>The comparison \<^verbatim>\<open>==\<close> of numpy on floats.\<close>

fun ceq :: "cell \<Rightarrow> cell \<Rightarrow> bool" where
  "ceq (Val a) (Val b) = (a = b)"
| "ceq _ _ = False"

definition isnan :: "cell \<Rightarrow> bool" where
  "isnan x = (x = NaN)"

subsection \<open>Arrays and raster datasets\<close>

text \<open>
  A 2-D array is the list of its rows, a 3-D array (bands, rows, columns) the list of its
  bands. \<open>is_array2 rows cols a\<close> says that \<open>a\<close> is rectangular of that shape.
\<close>

type_synonym array2 = "cell list list"
type_synonym array3 = "array2 list"

definition nrows :: "'a list list \<Rightarrow> nat" where
  "nrows a = length a"

definition ncols :: "'a list list \<Rightarrow> nat" where
  "ncols a = (case a of [] \<Rightarrow> 0 | r # _ \<Rightarrow> length r)"

definition is_array2 :: "nat \<Rightarrow> nat \<Rightarrow> 'a list list \<Rightarrow> bool" where
  "is_array2 rows cols a = (length a = rows \<and> list_all (\<lambda>r. length r = cols) a)"

text \<open>The six coefficients \<^verbatim>\<open>geoTrans[0]\<close> .. \<^verbatim>\<open>geoTrans[5]\<close> of GDAL.\<close>

record geotransform =
  gt0 :: rat
  gt1 :: rat
  gt2 :: rat
  gt3 :: rat
  gt4 :: rat
  gt5 :: rat

text \<open>
  What \<^verbatim>\<open>gdal.Open\<close> gives for a file: sizes, bands (already as floats, as
  \<^verbatim>\<open>ReadAsArray().astype(np.float32)\<close> delivers them), projection and geotransform.
  GDAL's \<^verbatim>\<open>GetProjection\<close> and \<^verbatim>\<open>GetGeoTransform\<close> always return a value.
\<close>

record dataset =
  RasterXSize :: nat
  RasterYSize :: nat
  raster_bands :: array3
  projection :: string
  geoTransform :: geotransform

definition wf_dataset :: "dataset \<Rightarrow> bool" where
  "wf_dataset ds =
     (0 < RasterXSize ds \<and> 0 < RasterYSize ds \<and>
      list_all (is_array2 (RasterYSize ds) (RasterXSize ds)) (raster_bands ds))"

text \<open>The files that can be opened, by path. \<^verbatim>\<open>gdal.Open\<close> returns \<^verbatim>\<open>None\<close> otherwise.\<close>

type_synonym filesystem = "string \<Rightarrow> dataset option"

text \<open>
  The exceptions that reach the caller: \<open>AttributeError\<close> from using the \<^verbatim>\<open>None\<close> of a
  failed \<^verbatim>\<open>gdal.Open\<close>, \<open>ValueError\<close> from stacking no band, from shapes that do not
  broadcast and from writing an array larger than the file, \<open>IndexError\<close> from indexing
  band 0 of an empty stack, \<open>TypeError\<close> from a call that misses an argument.
\<close>

datatype error = AttributeError | ValueError | IndexError | TypeError

subsection \<open>\<^verbatim>\<open>read_raster\<close>\<close>

text \<open>\<^verbatim>\<open>ds == nodata\<close>: comparing with \<^verbatim>\<open>None\<close> is false in every cell.\<close>

fun eq_nodata :: "cell \<Rightarrow> cell option \<Rightarrow> bool" where
  "eq_nodata x None = False"
| "eq_nodata x (Some s) = ceq x s"

text \<open>\<^verbatim>\<open>ds[ds == nodata] = np.nan\<close>\<close>

definition fill_nodata :: "cell option \<Rightarrow> array2 \<Rightarrow> array2" where
  "fill_nodata nodata ds = map (map (\<lambda>x. if eq_nodata x nodata then NaN else x)) ds"

text \<open>\<^verbatim>\<open>src_ds.GetRasterBand(band).ReadAsArray()\<close>, bands counted from 1.\<close>

definition ReadAsArray :: "dataset \<Rightarrow> nat \<Rightarrow> array2" where
  "ReadAsArray src_ds band = raster_bands src_ds ! (band - 1)"

definition read_raster ::
  "filesystem \<Rightarrow> string \<Rightarrow> cell option \<Rightarrow> error + (array3 \<times> string \<times> geotransform)" where
  "read_raster fs path nodata =
     (case fs path of
        None \<Rightarrow> Inl AttributeError
      | Some src_ds \<Rightarrow>
          let n_bands = length (raster_bands src_ds);
              raw_image = map (\<lambda>band. fill_nodata nodata (ReadAsArray src_ds band))
                              [1 ..< n_bands + 1]
          in if raw_image = [] then Inl ValueError
             else Inr (raw_image, projection src_ds, geoTransform src_ds))"

subsection \<open>\<^verbatim>\<open>get_bbox\<close>\<close>

definition get_bbox :: "filesystem \<Rightarrow> string \<Rightarrow> error + rat list" where
  "get_bbox fs path =
     (case fs path of
        None \<Rightarrow> Inl AttributeError
      | Some src_ds \<Rightarrow>
          let geoTrans = geoTransform src_ds;
              resX = gt1 geoTrans;
              resY = gt5 geoTrans;
              ulx = gt0 geoTrans;
              uly = gt3 geoTrans;
              lrx = ulx + (of_nat (RasterXSize src_ds) * resX);
              lry = uly + (of_nat (RasterYSize src_ds) * resY)
          in Inr [ulx, lry, lrx, uly, resX, resY])"

subsection \<open>\<^verbatim>\<open>high_pass_filter\<close>\<close>

definition highPassMatrix :: "rat list list" where
  "highPassMatrix = map (map (\<lambda>x. x / 25))
     [[-1, -1, -1, -1, -1],
      [-1, -1, -1, -1, -1],
      [-1, -1, 24, -1, -1],
      [-1, -1, -1, -1, -1],
      [-1, -1, -1, -1, -1]]"

text \<open>The second and third extent of a 3-D array, read off its first band.\<close>

definition dim1 :: "'a list list list \<Rightarrow> nat" where
  "dim1 a = (case a of [] \<Rightarrow> 0 | b # _ \<Rightarrow> nrows b)"

definition dim2 :: "'a list list list \<Rightarrow> nat" where
  "dim2 a = (case a of [] \<Rightarrow> 0 | b # _ \<Rightarrow> ncols b)"

text \<open>
  \<^verbatim>\<open>scipy.ndimage.convolve(input, weights, mode='constant', cval=cval)\<close> is an
  N-dimensional convolution: it mirrors the weights along every axis and correlates. Along
  an axis of kernel extent \<open>s\<close>, output position \<open>i\<close> and position \<open>j\<close> of the mirrored
  kernel, the input is read at \<open>i + j - s div 2\<close>, shifted by one when \<open>s\<close> is even (the
  origin scipy takes for a convolution with an even extent). A position outside the input
  reads \<open>cval\<close>. The sum is accumulated from \<open>0\<close> in kernel order.
\<close>

definition src_index :: "nat \<Rightarrow> nat \<Rightarrow> nat \<Rightarrow> int" where
  "src_index s i j = int i + int j - int (s div 2) + (if even s then 1 else 0)"

definition at3 :: "cell \<Rightarrow> array3 \<Rightarrow> int \<Rightarrow> int \<Rightarrow> int \<Rightarrow> cell" where
  "at3 cval a b r c =
     (if 0 \<le> b \<and> b < int (length a) \<and> 0 \<le> r \<and> r < int (dim1 a) \<and> 0 \<le> c \<and> c < int (dim2 a)
      then a ! nat b ! nat r ! nat c else cval)"

definition convolve_cell ::
  "array3 \<Rightarrow> rat list list list \<Rightarrow> cell \<Rightarrow> nat \<Rightarrow> nat \<Rightarrow> nat \<Rightarrow> cell" where
  "convolve_cell input weights cval i0 i1 i2 =
     (let s0 = length weights; s1 = dim1 weights; s2 = dim2 weights
      in foldl cadd (Val 0)
           (concat (map (\<lambda>j0. concat (map (\<lambda>j1. map (\<lambda>j2.
              cscale (weights ! (s0 - 1 - j0) ! (s1 - 1 - j1) ! (s2 - 1 - j2))
                     (at3 cval input (src_index s0 i0 j0) (src_index s1 i1 j1)
                                     (src_index s2 i2 j2)))
              [0 ..< s2]) [0 ..< s1])) [0 ..< s0])))"

definition convolve :: "array3 \<Rightarrow> rat list list list \<Rightarrow> cell \<Rightarrow> array3" where
  "convolve input weights cval =
     map (\<lambda>i0. map (\<lambda>i1. map (\<lambda>i2. convolve_cell input weights cval i0 i1 i2)
       [0 ..< dim2 input]) [0 ..< dim1 input]) [0 ..< length input]"

text \<open>
  The kernel \<open>k\<close> is \<open>highPassMatrix\<close> stacked once per band, a 3-D kernel;
  \<^verbatim>\<open>np.stack\<close> of no array raises.
\<close>

definition high_pass_filter :: "array3 \<Rightarrow> error + array3" where
  "high_pass_filter array =
     (let k = replicate (length array) highPassMatrix
      in if k = [] then Inl ValueError else Inr (convolve array k NaN))"

subsection \<open>\<^verbatim>\<open>pansharpening\<close>\<close>

text \<open>
  Elementwise arithmetic on 2-D arrays broadcasts as numpy does: two extents agree when
  they are equal or one of them is 1, and an extent of 1 is read at index 0.
\<close>

definition bdim :: "nat \<Rightarrow> nat \<Rightarrow> nat option" where
  "bdim m n = (if m = n then Some m else if m = 1 then Some n
               else if n = 1 then Some m else None)"

definition bidx :: "nat \<Rightarrow> nat \<Rightarrow> nat" where
  "bidx m i = (if m = 1 then 0 else i)"

definition broadcast2 :: "(cell \<Rightarrow> cell \<Rightarrow> cell) \<Rightarrow> array2 \<Rightarrow> array2 \<Rightarrow> error + array2" where
  "broadcast2 f a b =
     (case (bdim (nrows a) (nrows b), bdim (ncols a) (ncols b)) of
        (Some R, Some C) \<Rightarrow>
          Inr (map (\<lambda>r. map (\<lambda>c. f (a ! bidx (nrows a) r ! bidx (ncols a) c)
                                   (b ! bidx (nrows b) r ! bidx (ncols b) c))
                 [0 ..< C]) [0 ..< R])
      | _ \<Rightarrow> Inl ValueError)"

text \<open>\<^verbatim>\<open>arr[0,:,:]\<close>\<close>

definition band0 :: "array3 \<Rightarrow> error + array2" where
  "band0 arr = (case arr of [] \<Rightarrow> Inl IndexError | b # _ \<Rightarrow> Inr b)"

text \<open>\<^verbatim>\<open>band + (pan_arr2d - pan_spatial2d)\<close>\<close>

definition hpf_fusion :: "array2 \<Rightarrow> array2 \<Rightarrow> array2 \<Rightarrow> error + array2" where
  "hpf_fusion band pan_arr2d pan_spatial2d =
     (case broadcast2 csub pan_arr2d pan_spatial2d of
        Inl e \<Rightarrow> Inl e
      | Inr detail \<Rightarrow> broadcast2 cadd band detail)"

text \<open>
  \<^verbatim>\<open>pansharpen[np.isnan(pansharpen)] = nodata\<close>; assigning \<^verbatim>\<open>None\<close> into a float
  array stores not-a-number.
\<close>

definition replace_nan :: "cell option \<Rightarrow> array2 \<Rightarrow> array2" where
  "replace_nan nodata a =
     map (map (\<lambda>x. if isnan x then (case nodata of None \<Rightarrow> NaN | Some s \<Rightarrow> s) else x)) a"

text \<open>
  What is done to the output file, in order. \<open>Create path columns rows n_bands\<close> is the
  driver's \<^verbatim>\<open>Create\<close>, which is taken to succeed; bands are counted from 1.
\<close>

datatype event =
    Create string nat nat nat
  | SetNoDataValue nat cell
  | WriteArray nat array2
  | SetGeoTransform geotransform
  | SetProjection string
  | FlushCache

text \<open>GDAL's \<^verbatim>\<open>WriteArray\<close> refuses an array larger than the band.\<close>

definition fits :: "nat \<Rightarrow> nat \<Rightarrow> array2 \<Rightarrow> bool" where
  "fits rows columns a = (ncols a \<le> columns \<and> nrows a \<le> rows)"

text \<open>The loop over the MUL bands; \<open>out_img\<close> is what has been done to the file so far.\<close>

fun fuse_bands ::
  "cell option \<Rightarrow> nat \<Rightarrow> nat \<Rightarrow> array3 \<Rightarrow> array2 \<Rightarrow> array2 \<Rightarrow> nat list \<Rightarrow> event list
   \<Rightarrow> error + event list" where
  "fuse_bands nodata rows columns mul_arr pan_arr2d pan_spatial2d [] out_img = Inr out_img"
| "fuse_bands nodata rows columns mul_arr pan_arr2d pan_spatial2d (i # is) out_img =
     (let band = mul_arr ! i
      in case hpf_fusion band pan_arr2d pan_spatial2d of
           Inl e \<Rightarrow> Inl e
         | Inr fused \<Rightarrow>
             let pansharpen = replace_nan nodata fused;
                 tagged = (case nodata of
                             None \<Rightarrow> out_img
                           | Some v \<Rightarrow> out_img @ [SetNoDataValue (i + 1) v])
             in if fits rows columns pansharpen
                then fuse_bands nodata rows columns mul_arr pan_arr2d pan_spatial2d is
                       (tagged @ [WriteArray (i + 1) pansharpen])
                else Inl ValueError)"

definition pansharpening ::
  "filesystem \<Rightarrow> string \<Rightarrow> string \<Rightarrow> string \<Rightarrow> cell option \<Rightarrow> error + event list" where
  "pansharpening fs mul_resize pan outPath nodata =
     (case read_raster fs pan nodata of
        Inl e \<Rightarrow> Inl e
      | Inr (pan_arr, proj, geoTrans) \<Rightarrow>
     (case high_pass_filter pan_arr of
        Inl e \<Rightarrow> Inl e
      | Inr pan_spatial \<Rightarrow>
     (case read_raster fs mul_resize None of
        Inl e \<Rightarrow> Inl e
      | Inr (mul_arr, _, _) \<Rightarrow>
     (case get_bbox fs pan of
        Inl e \<Rightarrow> Inl e
      | Inr bbox_pan \<Rightarrow>
     (let n_bands = length mul_arr;
          rows = dim1 mul_arr;
          columns = dim2 mul_arr;
          out_img = [Create outPath columns rows n_bands]
      in case band0 pan_arr of
           Inl e \<Rightarrow> Inl e
         | Inr pan_arr2d \<Rightarrow>
        (case band0 pan_spatial of
           Inl e \<Rightarrow> Inl e
         | Inr pan_spatial2d \<Rightarrow>
        (case fuse_bands nodata rows columns mul_arr pan_arr2d pan_spatial2d
                [0 ..< n_bands] out_img of
           Inl e \<Rightarrow> Inl e
         | Inr written \<Rightarrow>
             Inr (written @ [SetGeoTransform geoTrans, SetProjection proj, FlushCache]))))))))"

text \<open>The array written to band \<open>b\<close> (from 1) of the output, if the run wrote one.\<close>

fun written_band :: "event list \<Rightarrow> nat \<Rightarrow> array2 option" where
  "written_band [] b = None"
| "written_band (WriteArray b' a # es) b = (if b' = b then Some a else written_band es b)"
| "written_band (_ # es) b = written_band es b"

subsection \<open>The script \<^verbatim>\<open>pansharpen.py\<close>\<close>

text \<open>
  A call binds positional arguments to the four parameters of
  \<^verbatim>\<open>pansharpening(mul_resize, pan, outPath, nodata)\<close>, none of which has a default:
  any other number of arguments raises \<open>TypeError\<close> before the body runs.
\<close>

datatype pyarg = PStr string | PNodata "cell option"

fun call_pansharpening :: "filesystem \<Rightarrow> pyarg list \<Rightarrow> error + event list" where
  "call_pansharpening fs [PStr mul_resize, PStr pan, PStr outPath, PNodata nodata] =
     pansharpening fs mul_resize pan outPath nodata"
| "call_pansharpening fs _ = Inl TypeError"

text \<open>
  The script: the bounding box of PAN, the external \<^verbatim>\<open>gdalwarp\<close> when the resized MUL
  does not exist yet (a parameter here: it is another program), then the call
  \<^verbatim>\<open>functions.pansharpening(mul_img_resized, pan_img, out_img)\<close>.
\<close>

definition main_script ::
  "(filesystem \<Rightarrow> rat list \<Rightarrow> string \<Rightarrow> string \<Rightarrow> filesystem) \<Rightarrow> filesystem \<Rightarrow>
   string \<Rightarrow> string \<Rightarrow> string \<Rightarrow> string \<Rightarrow> error + event list" where
  "main_script gdalwarp fs mul_img pan_img out_img mul_img_resized =
     (case get_bbox fs pan_img of
        Inl e \<Rightarrow> Inl e
      | Inr bbox \<Rightarrow>
          let fs' = (if fs mul_img_resized = None
                     then gdalwarp fs bbox mul_img mul_img_resized else fs)
          in call_pansharpening fs' [PStr mul_img_resized, PStr pan_img, PStr out_img])"

subsection \<open>What the specification says of the filter\<close>

text \<open>
  The specification's filter treats every band on its own: each cell is the weighted sum
  of the 5x5 neighbourhood in the same band, with not-a-number outside the raster. This is
  the 2-D convolution of the band with \<open>highPassMatrix\<close>.
\<close>

definition spec_filter_band :: "array2 \<Rightarrow> array2" where
  "spec_filter_band b =
     map (\<lambda>r. map (\<lambda>c. convolve_cell [b] [highPassMatrix] NaN 0 r c) [0 ..< ncols b])
       [0 ..< nrows b]"

definition spec_high_pass_filter :: "array3 \<Rightarrow> array3" where
  "spec_high_pass_filter a = map spec_filter_band a"

text \<open>
  The specification's fusion, cell by cell:
  \<^verbatim>\<open>fused[row,col] = mul[row,col] + (pan[row,col] - pan_highpass[row,col])\<close>.
\<close>

definition spec_fused :: "nat \<Rightarrow> nat \<Rightarrow> array2 \<Rightarrow> array2 \<Rightarrow> array2 \<Rightarrow> array2" where
  "spec_fused rows cols mul pan pan_highpass =
     map (\<lambda>row. map (\<lambda>col. cadd (mul ! row ! col)
                                 (csub (pan ! row ! col) (pan_highpass ! row ! col)))
            [0 ..< cols]) [0 ..< rows]"

text \<open>
  The specification's writer, for band \<open>i\<close> (from 0): the nodata tag, if a sentinel was
  given, and then the pixels.
\<close>

definition spec_band_events :: "cell option \<Rightarrow> nat \<Rightarrow> array2 \<Rightarrow> event list" where
  "spec_band_events nodata i a =
     (case nodata of None \<Rightarrow> [] | Some v \<Rightarrow> [SetNoDataValue (i + 1) v])
     @ [WriteArray (i + 1) a]"

text \<open>A run's events without the nodata tags.\<close>

fun is_tag :: "event \<Rightarrow> bool" where
  "is_tag (SetNoDataValue b v) = True"
| "is_tag _ = False"

definition drop_tags :: "event list \<Rightarrow> event list" where
  "drop_tags es = filter (\<lambda>e. \<not> is_tag e) es"

subsection \<open>Sample rasters\<close>

definition north_up :: geotransform where
  "north_up = \<lparr>gt0 = 0, gt1 = 1, gt2 = 0, gt3 = 5, gt4 = 0, gt5 = -1\<rparr>"

definition flat :: "rat \<Rightarrow> array2" where
  "flat v = replicate 5 (replicate 5 (Val v))"

definition spot :: "rat \<Rightarrow> rat \<Rightarrow> array2" where
  "spot v w = (flat v)[2 := (replicate 5 (Val v))[2 := Val w]]"

definition raster5 :: "array3 \<Rightarrow> dataset" where
  "raster5 bs = \<lparr>RasterXSize = 5, RasterYSize = 5, raster_bands = bs,
                 projection = ''EPSG:32642'', geoTransform = north_up\<rparr>"

text \<open>
  A PAN raster with one bright pixel in the middle and a two-band MUL raster whose first
  band holds the value -9999 in the middle.
\<close>

definition sample_fs :: filesystem where
  "sample_fs = (\<lambda>_. None)
     (''pan.tif'' \<mapsto> raster5 [spot 10 35],
      ''mul.tif'' \<mapsto> raster5 [spot 100 (-9999), flat 200])"



section \<open>Properties\<close>

subsection \<open>Bounding box\<close>





subsection \<open>Reading a raster\<close>

lemma bands_from_one:
  "map (\<lambda>band. f (xs ! (band - Suc 0))) [Suc 0 ..< Suc (length xs)] = map f xs"
  by (rule nth_equalityI) (simp_all del: upt_Suc)

lemma read_raster_Some:
  assumes "fs path = Some ds" and "raster_bands ds \<noteq> []"
  shows "read_raster fs path nodata =
           Inr (map (fill_nodata nodata) (raster_bands ds), projection ds, geoTransform ds)"
  using assms
  by (simp add: read_raster_def ReadAsArray_def
        bands_from_one [of "fill_nodata nodata" "raster_bands ds"] del: upt_Suc)

lemma fill_nodata_None: "fill_nodata None = (\<lambda>a. a)"
  by (rule ext) (simp add: fill_nodata_def)







subsection \<open>The high-pass kernel\<close>


lemma convolve_length: "length (convolve a w cv) = length a"
  by (simp add: convolve_def)


lemma convolve_is_array2:
  "b < length a \<Longrightarrow> is_array2 (dim1 a) (dim2 a) (convolve a w cv ! b)"
  by (simp add: convolve_def is_array2_def list_all_iff)

lemma high_pass_filter_Inr:
  "a \<noteq> [] \<Longrightarrow> high_pass_filter a = Inr (convolve a (replicate (length a) highPassMatrix) NaN)"
  by (simp add: high_pass_filter_def Let_def)

lemma ncols_is_array2: "is_array2 rows cols a \<Longrightarrow> 0 < rows \<Longrightarrow> ncols a = cols"
  by (cases a) (auto simp: is_array2_def ncols_def)

lemma nrows_is_array2: "is_array2 rows cols a \<Longrightarrow> nrows a = rows"
  by (simp add: is_array2_def nrows_def)











lemma flat_is_array2: "is_array2 5 5 (flat v)"
  by (simp add: flat_def is_array2_def list_all_iff)



subsection \<open>Fusion and the loop over the bands\<close>

lemma bidx_lt: "i < m \<Longrightarrow> bidx m i = i"
  by (auto simp: bidx_def)

lemma broadcast2_same:
  assumes "is_array2 R C a" and "is_array2 R C b" and "0 < R"
  shows "broadcast2 f a b = Inr (map (\<lambda>r. map (\<lambda>c. f (a ! r ! c) (b ! r ! c)) [0 ..< C]) [0 ..< R])"
  using assms
  by (simp add: broadcast2_def nrows_is_array2 ncols_is_array2 bdim_def bidx_lt)

lemma is_array2_table: "is_array2 R C (map (\<lambda>r. map (g r) [0 ..< C]) [0 ..< R])"
  by (simp add: is_array2_def list_all_iff)

lemma hpf_fusion_same:
  assumes "is_array2 R C band" and "is_array2 R C p" and "is_array2 R C s" and "0 < R"
  shows "hpf_fusion band p s = Inr (spec_fused R C band p s)"
proof -
  let ?d = "map (\<lambda>r. map (\<lambda>c. csub (p ! r ! c) (s ! r ! c)) [0 ..< C]) [0 ..< R]"
  have d: "broadcast2 csub p s = Inr ?d"
    using assms by (rule_tac broadcast2_same)
  have "broadcast2 cadd band ?d
          = Inr (map (\<lambda>r. map (\<lambda>c. cadd (band ! r ! c) (?d ! r ! c)) [0 ..< C]) [0 ..< R])"
    using assms(1) is_array2_table assms(4) by (rule broadcast2_same)
  also have "map (\<lambda>r. map (\<lambda>c. cadd (band ! r ! c) (?d ! r ! c)) [0 ..< C]) [0 ..< R]
               = spec_fused R C band p s"
    by (simp add: spec_fused_def)
  finally show ?thesis
    by (simp add: hpf_fusion_def d)
qed

lemma spec_fused_nth:
  "r < R \<Longrightarrow> c < C \<Longrightarrow>
   spec_fused R C band p s ! r ! c = cadd (band ! r ! c) (csub (p ! r ! c) (s ! r ! c))"
  by (simp add: spec_fused_def)

lemma replace_nan_is_array2: "is_array2 R C a \<Longrightarrow> is_array2 R C (replace_nan nodata a)"
  by (simp add: replace_nan_def is_array2_def list_all_iff)

lemma fits_is_array2: "is_array2 R C a \<Longrightarrow> 0 < R \<Longrightarrow> fits R C a"
  by (simp add: fits_def nrows_is_array2 ncols_is_array2)

lemma spec_fused_is_array2: "is_array2 R C (spec_fused R C band p s)"
  unfolding spec_fused_def by (rule is_array2_table)

lemma fuse_bands_trace:
  "fuse_bands nodata rows columns mul_arr p s is out_img = Inr tr \<Longrightarrow>
   \<exists>arrs. length arrs = length is
        \<and> (\<forall>k < length is. hpf_fusion (mul_arr ! (is ! k)) p s = Inr (arrs ! k))
        \<and> tr = out_img @ concat (map (\<lambda>k. spec_band_events nodata (is ! k)
                                            (replace_nan nodata (arrs ! k))) [0 ..< length is])"
proof (induction "is" arbitrary: out_img)
  case Nil
  then show ?case by simp
next
  case (Cons i "is")
  from Cons.prems obtain fused where
    f: "hpf_fusion (mul_arr ! i) p s = Inr fused"
    and ok: "fits rows columns (replace_nan nodata fused)"
    and rest: "fuse_bands nodata rows columns mul_arr p s is
                 (out_img @ spec_band_events nodata i (replace_nan nodata fused)) = Inr tr"
    by (auto simp: Let_def spec_band_events_def split: sum.splits if_splits option.splits)
  from Cons.IH [OF rest] obtain arrs where
    a: "length arrs = length is"
       "\<forall>k < length is. hpf_fusion (mul_arr ! (is ! k)) p s = Inr (arrs ! k)"
       "tr = (out_img @ spec_band_events nodata i (replace_nan nodata fused))
              @ concat (map (\<lambda>k. spec_band_events nodata (is ! k)
                                   (replace_nan nodata (arrs ! k))) [0 ..< length is])"
    by blast
  let ?g = "\<lambda>xs ys k. spec_band_events nodata (xs ! k) (replace_nan nodata (ys ! k))"
  have shift: "map (?g (i # is) (fused # arrs)) [0 ..< length (i # is)]
                 = ?g (i # is) (fused # arrs) 0 # map (?g is arrs) [0 ..< length is]"
  proof -
    have "[0 ..< length (i # is)] = 0 # map Suc [0 ..< length is]"
      by (simp add: upt_conv_Cons map_Suc_upt del: upt_Suc)
    then show ?thesis by simp
  qed
  show ?case
  proof (intro exI [of _ "fused # arrs"] conjI)
    show "length (fused # arrs) = length (i # is)" using a(1) by simp
    show "\<forall>k < length (i # is). hpf_fusion (mul_arr ! ((i # is) ! k)) p s = Inr ((fused # arrs) ! k)"
      using f a(2) by (auto simp: nth_Cons split: nat.splits)
    show "tr = out_img @ concat (map (?g (i # is) (fused # arrs)) [0 ..< length (i # is)])"
      unfolding shift using a(3) by simp
  qed
qed

lemma fuse_bands_wf:
  assumes "\<forall>i \<in> set is. is_array2 R C (mul_arr ! i)" and "is_array2 R C p" and "is_array2 R C s"
    and "0 < R"
  shows "fuse_bands nodata R C mul_arr p s is out_img =
           Inr (out_img @ concat (map (\<lambda>i. spec_band_events nodata i
                  (replace_nan nodata (spec_fused R C (mul_arr ! i) p s))) is))"
  using assms(1)
proof (induction "is" arbitrary: out_img)
  case Nil
  then show ?case by simp
next
  case (Cons i "is")
  have f: "hpf_fusion (mul_arr ! i) p s = Inr (spec_fused R C (mul_arr ! i) p s)"
    using Cons.prems assms(2-4) by (simp add: hpf_fusion_same)
  have ok: "fits R C (replace_nan nodata (spec_fused R C (mul_arr ! i) p s))"
    using assms(4) by (simp add: fits_is_array2 replace_nan_is_array2 spec_fused_is_array2)
  have tag: "(case nodata of None \<Rightarrow> out_img | Some v \<Rightarrow> out_img @ [SetNoDataValue (i + 1) v])
               @ [WriteArray (i + 1) a] = out_img @ spec_band_events nodata i a" for a
    by (simp add: spec_band_events_def split: option.splits)
  show ?case
    using Cons.IH Cons.prems by (simp add: f ok Let_def tag del: One_nat_def)
qed

lemma written_band_band_events_other:
  "i \<noteq> j \<Longrightarrow> written_band (spec_band_events nodata i a @ es) (j + 1) = written_band es (j + 1)"
  by (simp add: spec_band_events_def split: option.splits)

lemma written_band_band_events_same:
  "written_band (spec_band_events nodata i a @ es) (i + 1) = Some a"
  by (simp add: spec_band_events_def split: option.splits)

lemma written_band_bands:
  "i \<in> set is \<Longrightarrow>
   written_band (concat (map (\<lambda>k. spec_band_events nodata k (A k)) is) @ es) (i + 1) = Some (A i)"
proof (induction "is")
  case Nil
  then show ?case by simp
next
  case (Cons k "is")
  show ?case
  proof (cases "k = i")
    case True
    then show ?thesis
      using written_band_band_events_same [of nodata i "A i"] by simp
  next
    case False
    then have "i \<in> set is" using Cons.prems by simp
    then show ?thesis
      using Cons.IH written_band_band_events_other [OF False, of nodata "A k"] by simp
  qed
qed


lemma band0_nth: "a \<noteq> [] \<Longrightarrow> band0 a = Inr (a ! 0)"
  by (cases a) (simp_all add: band0_def)

lemma fill_nodata_is_array2: "is_array2 R C a \<Longrightarrow> is_array2 R C (fill_nodata nodata a)"
  by (simp add: fill_nodata_def is_array2_def list_all_iff)

lemma wf_dataset_band:
  "wf_dataset ds \<Longrightarrow> b < length (raster_bands ds) \<Longrightarrow>
   is_array2 (RasterYSize ds) (RasterXSize ds) (raster_bands ds ! b)"
  by (simp add: wf_dataset_def list_all_length)

lemma dims_stack:
  assumes "a \<noteq> []" and "is_array2 R C (a ! 0)" and "0 < R"
  shows "dim1 a = R" and "dim2 a = C"
  using assms by (cases a; simp add: dim1_def dim2_def nrows_is_array2 ncols_is_array2)+

lemma pansharpening_wf:
  assumes pan: "fs pan = Some P" and mul: "fs mul = Some M"
    and wfP: "wf_dataset P" and wfM: "wf_dataset M"
    and neP: "raster_bands P \<noteq> []" and neM: "raster_bands M \<noteq> []"
    and sx: "RasterXSize P = RasterXSize M" and sy: "RasterYSize P = RasterYSize M"
  shows "pansharpening fs mul pan outPath nodata =
           Inr (Create outPath (RasterXSize M) (RasterYSize M) (length (raster_bands M))
                # concat (map (\<lambda>i. spec_band_events nodata i
                     (replace_nan nodata
                        (spec_fused (RasterYSize M) (RasterXSize M) (raster_bands M ! i)
                           (map (fill_nodata nodata) (raster_bands P) ! 0)
                           (convolve (map (fill_nodata nodata) (raster_bands P))
                              (replicate (length (raster_bands P)) highPassMatrix) NaN ! 0))))
                     [0 ..< length (raster_bands M)])
                @ [SetGeoTransform (geoTransform P), SetProjection (projection P), FlushCache])"
proof -
  let ?R = "RasterYSize M" and ?C = "RasterXSize M"
  let ?pan_arr = "map (fill_nodata nodata) (raster_bands P)"
  let ?sp = "convolve ?pan_arr (replicate (length (raster_bands P)) highPassMatrix) NaN"
  have R: "0 < ?R" using wfM by (simp add: wf_dataset_def)
  have lenP: "0 < length (raster_bands P)" using neP by simp
  have lenM: "0 < length (raster_bands M)" using neM by simp
  have r1: "read_raster fs pan nodata = Inr (?pan_arr, projection P, geoTransform P)"
    using read_raster_Some [of fs pan P nodata] pan neP by simp
  have r2: "read_raster fs mul None = Inr (raster_bands M, projection M, geoTransform M)"
    using read_raster_Some [of fs mul M None] mul neM by (simp add: fill_nodata_None)
  have ne: "?pan_arr \<noteq> []" using neP by simp
  have hp: "high_pass_filter ?pan_arr = Inr ?sp"
    using high_pass_filter_Inr [OF ne] by simp
  have bb: "\<exists>b. get_bbox fs pan = Inr b"
    using pan by (simp add: get_bbox_def Let_def)
  have p0: "is_array2 ?R ?C (?pan_arr ! 0)"
    using wf_dataset_band [OF wfP lenP] lenP sx sy by (simp add: fill_nodata_is_array2)
  have dP: "dim1 ?pan_arr = ?R" "dim2 ?pan_arr = ?C"
    using dims_stack [OF ne p0 R] by simp_all
  have s0: "is_array2 ?R ?C (?sp ! 0)"
    using convolve_is_array2 [of 0 ?pan_arr] lenP dP by simp
  have spne: "?sp \<noteq> []"
    using lenP convolve_length [of ?pan_arr] by (metis length_0_conv length_map less_numeral_extra(3))
  have dM: "dim1 (raster_bands M) = ?R" "dim2 (raster_bands M) = ?C"
    using dims_stack [OF neM wf_dataset_band [OF wfM lenM] R] by simp_all
  have allM: "\<forall>i \<in> set [0 ..< length (raster_bands M)]. is_array2 ?R ?C (raster_bands M ! i)"
    using wf_dataset_band [OF wfM] by simp
  note loop = fuse_bands_wf [OF allM p0 s0 R]
  from bb obtain b where b: "get_bbox fs pan = Inr b" ..
  show ?thesis
    unfolding pansharpening_def
    by (simp add: r1 r2 hp b band0_nth [OF ne] band0_nth [OF spne] dM loop Let_def
          del: upt_Suc)
qed

subsection \<open>The whole run\<close>

lemma read_raster_InrD:
  "read_raster fs path nodata = Inr (img, proj, gt) \<Longrightarrow>
   \<exists>ds. fs path = Some ds \<and> proj = projection ds \<and> gt = geoTransform ds"
  by (auto simp: read_raster_def Let_def split: option.splits if_splits)

text \<open>
  Claim C9. Every run of \<open>pansharpening\<close> that completes has done this to the output
  file, in this order: created it; then for the bands 1, 2, .. N in ascending order, set
  the band's nodata tag (only when a sentinel was given) and after that written the band's
  pixels; then, after the last band, attached the geotransform and the projection of PAN;
  and last flushed.
\<close>

theorem write_order:
  assumes "pansharpening fs mul pan outPath nodata = Inr trace"
  shows "\<exists>columns rows arrs P.
           fs pan = Some P
         \<and> trace = Create outPath columns rows (length arrs)
                   # concat (map (\<lambda>i. spec_band_events nodata i (arrs ! i)) [0 ..< length arrs])
                   @ [SetGeoTransform (geoTransform P), SetProjection (projection P), FlushCache]"
proof -
  from assms obtain pan_arr proj gt pan_spatial mul_arr proj' gt' p s written where
    r1: "read_raster fs pan nodata = Inr (pan_arr, proj, gt)"
    and loop: "fuse_bands nodata (dim1 mul_arr) (dim2 mul_arr) mul_arr p s [0 ..< length mul_arr]
                 [Create outPath (dim2 mul_arr) (dim1 mul_arr) (length mul_arr)] = Inr written"
    and tr: "trace = written @ [SetGeoTransform gt, SetProjection proj, FlushCache]"
    unfolding pansharpening_def Let_def
    by (auto split: sum.splits prod.splits)
  from read_raster_InrD [OF r1] obtain P where
    P: "fs pan = Some P" "proj = projection P" "gt = geoTransform P" by blast
  from fuse_bands_trace [OF loop] obtain arrs where
    len: "length arrs = length mul_arr"
    and w: "written = [Create outPath (dim2 mul_arr) (dim1 mul_arr) (length mul_arr)]
              @ concat (map (\<lambda>k. spec_band_events nodata ([0 ..< length mul_arr] ! k)
                                   (replace_nan nodata (arrs ! k))) [0 ..< length mul_arr])"
    by auto
  let ?out = "map (replace_nan nodata) arrs"
  have m: "map (\<lambda>k. spec_band_events nodata ([0 ..< length mul_arr] ! k)
                      (replace_nan nodata (arrs ! k))) [0 ..< length mul_arr]
             = map (\<lambda>i. spec_band_events nodata i (?out ! i)) [0 ..< length ?out]"
    using len by (intro nth_equalityI) simp_all
  show ?thesis
    using P tr w len unfolding m
    by (intro exI [of _ "dim2 mul_arr"] exI [of _ "dim1 mul_arr"] exI [of _ ?out] exI [of _ P])
       simp
qed

text \<open>
  Claim C1. For rasters of equal size, every MUL band \<open>i\<close> and every pixel, the fused band
  is computed and its value at the pixel is
  \<open>mul[i,row,col] + (pan[0,row,col] - pan_highpass[0,row,col])\<close>, from the same pixel of
  band 0 of the PAN stack and of its filtered counterpart only; the run writes this band,
  after the replacement of not-a-number, as band \<open>i + 1\<close>.
\<close>

theorem fusion_formula:
  assumes pan: "fs pan = Some P" and mul: "fs mul = Some M"
    and wfP: "wf_dataset P" and wfM: "wf_dataset M"
    and neP: "raster_bands P \<noteq> []"
    and sx: "RasterXSize P = RasterXSize M" and sy: "RasterYSize P = RasterYSize M"
    and i: "i < length (raster_bands M)"
    and row: "row < RasterYSize M" and col: "col < RasterXSize M"
  shows "\<exists>pan_arr proj gt pan_highpass mul_arr proj' gt' fused trace.
           read_raster fs pan nodata = Inr (pan_arr, proj, gt)
         \<and> high_pass_filter pan_arr = Inr pan_highpass
         \<and> read_raster fs mul None = Inr (mul_arr, proj', gt')
         \<and> hpf_fusion (mul_arr ! i) (pan_arr ! 0) (pan_highpass ! 0) = Inr fused
         \<and> fused ! row ! col
             = cadd (mul_arr ! i ! row ! col)
                    (csub (pan_arr ! 0 ! row ! col) (pan_highpass ! 0 ! row ! col))
         \<and> pansharpening fs mul pan outPath nodata = Inr trace
         \<and> written_band trace (i + 1) = Some (replace_nan nodata fused)"
proof -
  let ?R = "RasterYSize M" and ?C = "RasterXSize M"
  let ?pan_arr = "map (fill_nodata nodata) (raster_bands P)"
  let ?sp = "convolve ?pan_arr (replicate (length (raster_bands P)) highPassMatrix) NaN"
  let ?fused = "spec_fused ?R ?C (raster_bands M ! i) (?pan_arr ! 0) (?sp ! 0)"
  have neM: "raster_bands M \<noteq> []" using i by auto
  have R: "0 < ?R" using wfM by (simp add: wf_dataset_def)
  have lenP: "0 < length (raster_bands P)" using neP by simp
  have ne: "?pan_arr \<noteq> []" using neP by simp
  have r1: "read_raster fs pan nodata = Inr (?pan_arr, projection P, geoTransform P)"
    using read_raster_Some [of fs pan P nodata] pan neP by simp
  have r2: "read_raster fs mul None = Inr (raster_bands M, projection M, geoTransform M)"
    using read_raster_Some [of fs mul M None] mul neM by (simp add: fill_nodata_None)
  have hp: "high_pass_filter ?pan_arr = Inr ?sp"
    using high_pass_filter_Inr [OF ne] by simp
  have p0: "is_array2 ?R ?C (?pan_arr ! 0)"
    using wf_dataset_band [OF wfP lenP] lenP sx sy by (simp add: fill_nodata_is_array2)
  have dP: "dim1 ?pan_arr = ?R" "dim2 ?pan_arr = ?C"
    using dims_stack [OF ne p0 R] by simp_all
  have s0: "is_array2 ?R ?C (?sp ! 0)"
    using convolve_is_array2 [of 0 ?pan_arr] lenP dP by simp
  have f: "hpf_fusion (raster_bands M ! i) (?pan_arr ! 0) (?sp ! 0) = Inr ?fused"
    using wf_dataset_band [OF wfM i] p0 s0 R by (rule hpf_fusion_same)
  have cell: "?fused ! row ! col
                = cadd (raster_bands M ! i ! row ! col)
                       (csub (?pan_arr ! 0 ! row ! col) (?sp ! 0 ! row ! col))"
    using row col by (rule spec_fused_nth)
  note run = pansharpening_wf [OF pan mul wfP wfM neP neM sx sy, of outPath nodata]
  have iset: "i \<in> set [0 ..< length (raster_bands M)]" using i by simp
  have wb: "written_band
              (Create outPath ?C ?R (length (raster_bands M))
               # concat (map (\<lambda>i. spec_band_events nodata i
                     (replace_nan nodata
                        (spec_fused ?R ?C (raster_bands M ! i) (?pan_arr ! 0) (?sp ! 0))))
                     [0 ..< length (raster_bands M)])
               @ [SetGeoTransform (geoTransform P), SetProjection (projection P), FlushCache])
              (i + 1) = Some (replace_nan nodata ?fused)"
    using written_band_bands [OF iset,
        of nodata "\<lambda>i. replace_nan nodata (spec_fused ?R ?C (raster_bands M ! i) (?pan_arr ! 0) (?sp ! 0))"]
    by simp
  show ?thesis
    using r1 hp r2 f cell run wb by blast
qed


lemma sample_pan: "sample_fs ''pan.tif'' = Some (raster5 [spot 10 35])"
  by (simp add: sample_fs_def)

lemma sample_mul: "sample_fs ''mul.tif'' = Some (raster5 [spot 100 (- 9999), flat 200])"
  by (simp add: sample_fs_def)

lemma spot_is_array2: "is_array2 5 5 (spot v w)"
  by (simp add: spot_def flat_def is_array2_def eval_nat_numeral)

lemma wf_sample:
  "wf_dataset (raster5 [spot 10 35])" "wf_dataset (raster5 [spot 100 (- 9999), flat 200])"
  by (simp_all add: wf_dataset_def raster5_def spot_is_array2 flat_is_array2)

lemma sample_run:
  "pansharpening sample_fs ''mul.tif'' ''pan.tif'' ''out.tif'' (Some (Val (- 9999))) =
     Inr [Create ''out.tif'' 5 5 2,
          SetNoDataValue 1 (Val (- 9999)),
          WriteArray 1 [[Val (- 9999), Val (- 9999), Val (- 9999), Val (- 9999), Val (- 9999)], [Val (- 9999), Val (- 9999), Val (- 9999), Val (- 9999), Val (- 9999)], [Val (- 9999), Val (- 9999), Val (- 9988), Val (- 9999), Val (- 9999)], [Val (- 9999), Val (- 9999), Val (- 9999), Val (- 9999), Val (- 9999)], [Val (- 9999), Val (- 9999), Val (- 9999), Val (- 9999), Val (- 9999)]],
          SetNoDataValue 2 (Val (- 9999)),
          WriteArray 2 [[Val (- 9999), Val (- 9999), Val (- 9999), Val (- 9999), Val (- 9999)], [Val (- 9999), Val (- 9999), Val (- 9999), Val (- 9999), Val (- 9999)], [Val (- 9999), Val (- 9999), Val 211, Val (- 9999), Val (- 9999)], [Val (- 9999), Val (- 9999), Val (- 9999), Val (- 9999), Val (- 9999)], [Val (- 9999), Val (- 9999), Val (- 9999), Val (- 9999), Val (- 9999)]],
          SetGeoTransform north_up, SetProjection ''EPSG:32642'', FlushCache]"
  by code_simp

theorem write_order_witness:
  "pansharpening sample_fs ''mul.tif'' ''pan.tif'' ''out.tif'' (Some (Val (- 9999))) =
     Inr [Create ''out.tif'' 5 5 2,
          SetNoDataValue 1 (Val (- 9999)),
          WriteArray 1 [[Val (- 9999), Val (- 9999), Val (- 9999), Val (- 9999), Val (- 9999)], [Val (- 9999), Val (- 9999), Val (- 9999), Val (- 9999), Val (- 9999)], [Val (- 9999), Val (- 9999), Val (- 9988), Val (- 9999), Val (- 9999)], [Val (- 9999), Val (- 9999), Val (- 9999), Val (- 9999), Val (- 9999)], [Val (- 9999), Val (- 9999), Val (- 9999), Val (- 9999), Val (- 9999)]],
          SetNoDataValue 2 (Val (- 9999)),
          WriteArray 2 [[Val (- 9999), Val (- 9999), Val (- 9999), Val (- 9999), Val (- 9999)], [Val (- 9999), Val (- 9999), Val (- 9999), Val (- 9999), Val (- 9999)], [Val (- 9999), Val (- 9999), Val 211, Val (- 9999), Val (- 9999)], [Val (- 9999), Val (- 9999), Val (- 9999), Val (- 9999), Val (- 9999)], [Val (- 9999), Val (- 9999), Val (- 9999), Val (- 9999), Val (- 9999)]],
          SetGeoTransform north_up, SetProjection ''EPSG:32642'', FlushCache]
   \<and> (\<exists>columns rows arrs P.
         sample_fs ''pan.tif'' = Some P
       \<and> [Create ''out.tif'' 5 5 2,
          SetNoDataValue 1 (Val (- 9999)),
          WriteArray 1 [[Val (- 9999), Val (- 9999), Val (- 9999), Val (- 9999), Val (- 9999)], [Val (- 9999), Val (- 9999), Val (- 9999), Val (- 9999), Val (- 9999)], [Val (- 9999), Val (- 9999), Val (- 9988), Val (- 9999), Val (- 9999)], [Val (- 9999), Val (- 9999), Val (- 9999), Val (- 9999), Val (- 9999)], [Val (- 9999), Val (- 9999), Val (- 9999), Val (- 9999), Val (- 9999)]],
          SetNoDataValue 2 (Val (- 9999)),
          WriteArray 2 [[Val (- 9999), Val (- 9999), Val (- 9999), Val (- 9999), Val (- 9999)], [Val (- 9999), Val (- 9999), Val (- 9999), Val (- 9999), Val (- 9999)], [Val (- 9999), Val (- 9999), Val 211, Val (- 9999), Val (- 9999)], [Val (- 9999), Val (- 9999), Val (- 9999), Val (- 9999), Val (- 9999)], [Val (- 9999), Val (- 9999), Val (- 9999), Val (- 9999), Val (- 9999)]],
          SetGeoTransform north_up, SetProjection ''EPSG:32642'', FlushCache]
         = Create ''out.tif'' columns rows (length arrs)
           # concat (map (\<lambda>i. spec_band_events (Some (Val (- 9999))) i (arrs ! i))
                       [0 ..< length arrs])
           @ [SetGeoTransform (geoTransform P), SetProjection (projection P), FlushCache])"
  using write_order [OF sample_run] sample_run by simp

theorem fusion_formula_witness:
  "wf_dataset (raster5 [spot 10 35]) \<and> wf_dataset (raster5 [spot 100 (- 9999), flat 200])
   \<and> (\<exists>pan_arr proj gt pan_highpass mul_arr proj' gt' fused trace.
           read_raster sample_fs ''pan.tif'' (Some (Val (- 9999))) = Inr (pan_arr, proj, gt)
         \<and> high_pass_filter pan_arr = Inr pan_highpass
         \<and> read_raster sample_fs ''mul.tif'' None = Inr (mul_arr, proj', gt')
         \<and> hpf_fusion (mul_arr ! 1) (pan_arr ! 0) (pan_highpass ! 0) = Inr fused
         \<and> fused ! 2 ! 2
             = cadd (mul_arr ! 1 ! 2 ! 2) (csub (pan_arr ! 0 ! 2 ! 2) (pan_highpass ! 0 ! 2 ! 2))
         \<and> pansharpening sample_fs ''mul.tif'' ''pan.tif'' ''out.tif'' (Some (Val (- 9999)))
             = Inr trace
         \<and> written_band trace (1 + 1) = Some (replace_nan (Some (Val (- 9999))) fused))"
  using fusion_formula [where i = 1 and row = 2 and col = 2 and outPath = "''out.tif''"
          and nodata = "Some (Val (- 9999))", OF sample_pan sample_mul wf_sample]
    wf_sample
  by (simp add: raster5_def)

subsection \<open>Where the code departs from the specification\<close>

lemma high_pass_filter_one_band: "high_pass_filter [b] = Inr (spec_high_pass_filter [b])"
  by (simp add: high_pass_filter_def convolve_def spec_high_pass_filter_def spec_filter_band_def
        dim1_def dim2_def)

text \<open>
  Claim C3 says that every band is filtered on its own. The kernel handed to
  \<^verbatim>\<open>ndimage.convolve\<close> is three-dimensional, so the sum also runs over the band
  axis. On the two-band stack of a flat band and a band with one bright pixel, band 0 of
  the result holds 24 at the centre, the sum over both bands, where the band's own filter
  gives 0; band 1 holds not-a-number everywhere, where the band's own filter gives 24 at
  the centre. For a stack of one band the two agree (\<open>high_pass_filter_one_band\<close>).
\<close>

theorem filter_mixes_bands:
  "high_pass_filter [flat 1, spot 10 35] = Inr [[[NaN, NaN, NaN, NaN, NaN], [NaN, NaN, NaN, NaN, NaN], [NaN, NaN, Val 24, NaN, NaN], [NaN, NaN, NaN, NaN, NaN], [NaN, NaN, NaN, NaN, NaN]], [[NaN, NaN, NaN, NaN, NaN], [NaN, NaN, NaN, NaN, NaN], [NaN, NaN, NaN, NaN, NaN], [NaN, NaN, NaN, NaN, NaN], [NaN, NaN, NaN, NaN, NaN]]]
   \<and> spec_high_pass_filter [flat 1, spot 10 35] = [[[NaN, NaN, NaN, NaN, NaN], [NaN, NaN, NaN, NaN, NaN], [NaN, NaN, Val 0, NaN, NaN], [NaN, NaN, NaN, NaN, NaN], [NaN, NaN, NaN, NaN, NaN]], [[NaN, NaN, NaN, NaN, NaN], [NaN, NaN, NaN, NaN, NaN], [NaN, NaN, Val 24, NaN, NaN], [NaN, NaN, NaN, NaN, NaN], [NaN, NaN, NaN, NaN, NaN]]]"
  by code_simp

text \<open>
  Claim C4 says that a MUL cell equal to the sentinel is not-a-number after fusion and the
  sentinel again in the output. \<open>pansharpening\<close> reads MUL without the sentinel, so the
  cell stays a number: with the sentinel -9999 in the middle of MUL band 1 and PAN detail
  11 there, the fused cell is -9988 before the replacement of not-a-number, and -9988 is
  written.
\<close>

theorem mul_sentinel_not_masked:
  "raster_bands (raster5 [spot 100 (- 9999), flat 200]) ! 0 ! 2 ! 2 = Val (- 9999)
   \<and> read_raster sample_fs ''mul.tif'' None
       = Inr ([spot 100 (- 9999), flat 200], ''EPSG:32642'', north_up)
   \<and> read_raster sample_fs ''pan.tif'' (Some (Val (- 9999)))
       = Inr ([spot 10 35], ''EPSG:32642'', north_up)
   \<and> high_pass_filter [spot 10 35] = Inr [[[NaN, NaN, NaN, NaN, NaN], [NaN, NaN, NaN, NaN, NaN], [NaN, NaN, Val 24, NaN, NaN], [NaN, NaN, NaN, NaN, NaN], [NaN, NaN, NaN, NaN, NaN]]]
   \<and> hpf_fusion (spot 100 (- 9999)) (spot 10 35) [[NaN, NaN, NaN, NaN, NaN], [NaN, NaN, NaN, NaN, NaN], [NaN, NaN, Val 24, NaN, NaN], [NaN, NaN, NaN, NaN, NaN], [NaN, NaN, NaN, NaN, NaN]] = Inr [[NaN, NaN, NaN, NaN, NaN], [NaN, NaN, NaN, NaN, NaN], [NaN, NaN, Val (- 9988), NaN, NaN], [NaN, NaN, NaN, NaN, NaN], [NaN, NaN, NaN, NaN, NaN]]
   \<and> pansharpening sample_fs ''mul.tif'' ''pan.tif'' ''out.tif'' (Some (Val (- 9999)))
       = Inr [Create ''out.tif'' 5 5 2,
          SetNoDataValue 1 (Val (- 9999)),
          WriteArray 1 [[Val (- 9999), Val (- 9999), Val (- 9999), Val (- 9999), Val (- 9999)], [Val (- 9999), Val (- 9999), Val (- 9999), Val (- 9999), Val (- 9999)], [Val (- 9999), Val (- 9999), Val (- 9988), Val (- 9999), Val (- 9999)], [Val (- 9999), Val (- 9999), Val (- 9999), Val (- 9999), Val (- 9999)], [Val (- 9999), Val (- 9999), Val (- 9999), Val (- 9999), Val (- 9999)]],
          SetNoDataValue 2 (Val (- 9999)),
          WriteArray 2 [[Val (- 9999), Val (- 9999), Val (- 9999), Val (- 9999), Val (- 9999)], [Val (- 9999), Val (- 9999), Val (- 9999), Val (- 9999), Val (- 9999)], [Val (- 9999), Val (- 9999), Val 211, Val (- 9999), Val (- 9999)], [Val (- 9999), Val (- 9999), Val (- 9999), Val (- 9999), Val (- 9999)], [Val (- 9999), Val (- 9999), Val (- 9999), Val (- 9999), Val (- 9999)]],
          SetGeoTransform north_up, SetProjection ''EPSG:32642'', FlushCache]"
  by code_simp

text \<open>
  Claim C7 says that the run completes when no sentinel is given. The script calls
  \<open>pansharpening\<close> with three arguments where four are required, so no run of the script
  completes; on the sample files it ends in \<open>TypeError\<close>. Called with four arguments and
  no sentinel, the function leaves not-a-number in place and sets no tag
  (\<open>replace_nan_None\<close>, \<open>spec_band_events\<close>); with a sentinel every not-a-number cell
  becomes the sentinel (\<open>replace_nan_nth\<close>).
\<close>

theorem script_call_misses_nodata:
  "main_script gdalwarp fs mul_img pan_img out_img mul_img_resized \<noteq> Inr trace
   \<and> main_script (\<lambda>fs bbox src dst. fs) sample_fs ''mul_src.tif'' ''pan.tif'' ''out.tif''
       ''mul.tif'' = Inl TypeError"
proof
  show "main_script gdalwarp fs mul_img pan_img out_img mul_img_resized \<noteq> Inr trace"
    by (simp add: main_script_def Let_def split: sum.splits)
  show "main_script (\<lambda>fs bbox src dst. fs) sample_fs ''mul_src.tif'' ''pan.tif'' ''out.tif''
          ''mul.tif'' = Inl TypeError"
    by (simp add: main_script_def Let_def get_bbox_def sample_fs_def)
qed



lemma replace_nan_nth:
  "r < length a \<Longrightarrow> c < length (a ! r) \<Longrightarrow>
   replace_nan (Some s) a ! r ! c = (if a ! r ! c = NaN then s else a ! r ! c)"
  by (simp add: replace_nan_def isnan_def)



lemma drop_tags_append: "drop_tags (xs @ ys) = drop_tags xs @ drop_tags ys"
  by (simp add: drop_tags_def)




end
